theory Spec2Isabelle
  imports Complex_Main "HOL-Library.AList"
begin

section \<open>The directory synchronizer of file_syncer.py\<close>

text \<open>
  The class \<open>FileSyncer\<close> of \<open>src/python/file_syncer.py\<close>, embedded function by function.
  Modification times are Python floats (\<open>st_mtime\<close>); they are modelled as reals, so the
  rounding of the addition \<open>mtime + 2\<close> is not part of the model. Sizes and counters are
  Python integers.
\<close>

subsection \<open>Enumerations and records\<close>

datatype SyncMode = ONE_WAY | TWO_WAY | MIRROR

datatype FileAction = COPY | UPDATE | DELETE | CONFLICT | SKIP

datatype PathType = LOCAL | REMOTE

text \<open>
  One dictionary of \<open>_list_files\<close>: the keys \<open>path\<close>, \<open>full_path\<close>, \<open>size\<close>, \<open>mtime\<close>,
  \<open>is_dir\<close>.
\<close>

record file_info =
  path :: string
  full_path :: string
  size_of :: int
  mtime :: real
  is_dir :: bool

text \<open>The configuration attributes that \<open>__init__\<close> stores on the object.\<close>

record FileSyncer =
  source :: string
  destination :: string
  dry_run :: bool
  sync_mode :: SyncMode
  exclude_patterns :: "string list"
  include_patterns :: "string list"
  use_timestamp :: bool
  use_checksum :: bool
  backup :: bool
  force :: bool
  source_type :: PathType
  dest_type :: PathType

text \<open>The counters of \<open>self.stats\<close> (the two wall-clock entries are left out).\<close>

record stats =
  copied :: nat
  updated :: nat
  deleted :: nat
  skipped :: nat
  conflicts :: nat
  errors :: nat
  bytes_transferred :: nat

definition stats0 :: stats where
  "stats0 = \<lparr>copied = 0, updated = 0, deleted = 0, skipped = 0, conflicts = 0,
             errors = 0, bytes_transferred = 0\<rparr>"

subsection \<open>The storage backends\<close>

text \<open>
  The synchronizer reaches storage through \<open>os\<close>, \<open>shutil\<close> and the two paramiko SFTP
  clients. Those library calls are the parameters of the model: a record of operations
  over a state of the storage \<open>'w\<close>. A reading operation returns what the library
  returns (\<open>None\<close> where it raises); a writing operation returns the storage after the
  call and whether it completed without raising.
\<close>

datatype store = LocalFS | SourceSFTP | DestSFTP

record 'w backend =
  fnmatch_fn :: "string \<Rightarrow> string \<Rightarrow> bool"
  relpath_fn :: "string \<Rightarrow> string \<Rightarrow> string"
  md5_hex :: "string \<Rightarrow> string"
  exists_io :: "'w \<Rightarrow> store \<Rightarrow> string \<Rightarrow> bool"
  walk_io :: "'w \<Rightarrow> string \<Rightarrow> (string \<times> string list \<times> string list) list"
  stat_io :: "'w \<Rightarrow> string \<Rightarrow> (int \<times> real) option"
  listdir_attr_io :: "'w \<Rightarrow> store \<Rightarrow> string \<Rightarrow> (string \<times> bool \<times> int \<times> real) list option"
  read_io :: "'w \<Rightarrow> store \<Rightarrow> string \<Rightarrow> string option"
  mkdir_io :: "'w \<Rightarrow> PathType \<Rightarrow> string \<Rightarrow> 'w \<times> bool"
  backup_io :: "'w \<Rightarrow> PathType \<Rightarrow> string \<Rightarrow> 'w"
  transfer_io :: "'w \<Rightarrow> PathType \<Rightarrow> string \<Rightarrow> PathType \<Rightarrow> string \<Rightarrow> 'w \<times> nat \<times> bool"
  remove_io :: "'w \<Rightarrow> PathType \<Rightarrow> string \<Rightarrow> bool \<Rightarrow> 'w \<times> bool"

text \<open>
  The client chosen by \<open>_path_exists\<close>, \<open>_list_files\<close> and \<open>_calculate_checksum\<close> for a
  remote path: \<open>self.source_sftp if path_type == REMOTE and self.source_type == REMOTE
  else self.dest_sftp\<close>.
\<close>

definition sftp_for :: "FileSyncer \<Rightarrow> PathType \<Rightarrow> store" where
  "sftp_for sy path_type =
     (if path_type = REMOTE \<and> source_type sy = REMOTE then SourceSFTP else DestSFTP)"

definition store_for :: "FileSyncer \<Rightarrow> PathType \<Rightarrow> store" where
  "store_for sy path_type =
     (if path_type = LOCAL then LocalFS else sftp_for sy path_type)"

subsection \<open>Path helpers of the POSIX \<open>os.path\<close>\<close>

definition basename :: "string \<Rightarrow> string" where
  "basename p = rev (takeWhile (\<lambda>c. c \<noteq> CHR ''/'') (rev p))"

definition dirname :: "string \<Rightarrow> string" where
  "dirname p =
     (let hd_part = rev (dropWhile (\<lambda>c. c \<noteq> CHR ''/'') (rev p));
          stripped = rev (dropWhile (\<lambda>c. c = CHR ''/'') (rev hd_part))
      in if stripped = [] then hd_part else stripped)"

definition path_join :: "string \<Rightarrow> string \<Rightarrow> string" where
  "path_join a b =
     (if b \<noteq> [] \<and> hd b = CHR ''/'' then b
      else if a = [] \<or> last a = CHR ''/'' then a @ b
      else a @ ''/'' @ b)"

definition replace_backslash :: "string \<Rightarrow> string" where
  "replace_backslash p = map (\<lambda>c. if c = CHR 0x5C then CHR ''/'' else c) p"

subsection \<open>\<open>_path_exists\<close>\<close>

text \<open>Every exception of the lookup is caught and answered with \<open>False\<close>.\<close>

definition path_exists :: "'w backend \<Rightarrow> FileSyncer \<Rightarrow> 'w \<Rightarrow> string \<Rightarrow> PathType \<Rightarrow> bool" where
  "path_exists be sy w p path_type = exists_io be w (store_for sy path_type) p"

subsection \<open>\<open>_should_include_file\<close>\<close>

definition matches_any :: "(string \<Rightarrow> string \<Rightarrow> bool) \<Rightarrow> string list \<Rightarrow> string \<Rightarrow> bool" where
  "matches_any fnm patterns filepath =
     list_ex (\<lambda>pattern. fnm filepath pattern \<or> fnm (basename filepath) pattern) patterns"

definition should_include_file :: "(string \<Rightarrow> string \<Rightarrow> bool) \<Rightarrow> FileSyncer \<Rightarrow> string \<Rightarrow> bool" where
  "should_include_file fnm sy filepath =
     (if matches_any fnm (exclude_patterns sy) filepath then False
      else if include_patterns sy \<noteq> [] then matches_any fnm (include_patterns sy) filepath
      else True)"

subsection \<open>\<open>_calculate_checksum\<close>\<close>

text \<open>The digest of the bytes read, or the empty string when reading raises.\<close>

definition calculate_checksum :: "'w backend \<Rightarrow> FileSyncer \<Rightarrow> 'w \<Rightarrow> string \<Rightarrow> PathType \<Rightarrow> string" where
  "calculate_checksum be sy w filepath path_type =
     (case read_io be w (store_for sy path_type) filepath of
        None \<Rightarrow> []
      | Some bytes \<Rightarrow> md5_hex be bytes)"

subsection \<open>\<open>_compare_files\<close>\<close>

definition compare_files ::
  "'w backend \<Rightarrow> FileSyncer \<Rightarrow> 'w \<Rightarrow> file_info \<Rightarrow> file_info option \<Rightarrow> string \<Rightarrow> string \<Rightarrow> FileAction" where
  "compare_files be sy w source_file dest_file source_path dest_path =
     (case dest_file of
        None \<Rightarrow> COPY
      | Some d \<Rightarrow>
          if size_of source_file \<noteq> size_of d then UPDATE
          else if (use_timestamp sy \<and> \<not> use_checksum sy) \<and> mtime source_file > mtime d + 2
          then UPDATE
          else if use_checksum sy then
            (let source_checksum = calculate_checksum be sy w source_path
                   (if source_type sy = REMOTE then REMOTE else LOCAL);
                 dest_checksum = calculate_checksum be sy w dest_path
                   (if dest_type sy = REMOTE then REMOTE else LOCAL)
             in if source_checksum \<noteq> [] \<and> dest_checksum \<noteq> [] \<and> source_checksum \<noteq> dest_checksum
                then UPDATE else SKIP)
          else SKIP)"

subsection \<open>\<open>_resolve_conflict\<close>\<close>

text \<open>
  The destination entry is what \<open>dest_files.get\<close> returned; subscripting \<open>None\<close> raises
  a \<open>TypeError\<close>, the result \<open>None\<close> of the model.
\<close>

definition resolve_conflict :: "FileSyncer \<Rightarrow> file_info \<Rightarrow> file_info option \<Rightarrow> FileAction option" where
  "resolve_conflict sy source_file dest_file =
     (if force sy then Some UPDATE
      else case dest_file of
             None \<Rightarrow> None
           | Some d \<Rightarrow> if mtime source_file > mtime d then Some UPDATE else Some SKIP)"

subsection \<open>\<open>_list_files\<close>\<close>

text \<open>
  The local branch walks \<open>os.walk(directory)\<close>: for every triple the file names first,
  then the directory names, one \<open>os.stat\<close> each. The whole walk sits in a single
  \<open>try\<close>: when a \<open>stat\<close> raises, control leaves both loops, the error is logged, and the
  list filled so far is returned. \<open>Inl\<close> carries the list at the moment of the raise.
\<close>

definition local_entry :: "'w backend \<Rightarrow> 'w \<Rightarrow> string \<Rightarrow> string \<Rightarrow> bool \<Rightarrow> string \<Rightarrow> file_info option" where
  "local_entry be w directory root_dir isd name =
     (let fp = path_join root_dir name;
          rel_path = relpath_fn be fp directory
      in case stat_io be w fp of
           None \<Rightarrow> None
         | Some (sz, mt) \<Rightarrow>
             Some \<lparr>path = rel_path, full_path = fp, size_of = (if isd then 0 else sz),
                   mtime = mt, is_dir = isd\<rparr>)"

fun scan_names ::
  "'w backend \<Rightarrow> 'w \<Rightarrow> string \<Rightarrow> string \<Rightarrow> bool \<Rightarrow> string list \<Rightarrow> file_info list
     \<Rightarrow> file_info list + file_info list" where
  "scan_names be w directory root_dir isd [] files = Inr files"
| "scan_names be w directory root_dir isd (name # names) files =
     (case local_entry be w directory root_dir isd name of
        None \<Rightarrow> Inl files
      | Some e \<Rightarrow> scan_names be w directory root_dir isd names (files @ [e]))"

fun scan_walk ::
  "'w backend \<Rightarrow> 'w \<Rightarrow> string \<Rightarrow> (string \<times> string list \<times> string list) list \<Rightarrow> file_info list
     \<Rightarrow> file_info list + file_info list" where
  "scan_walk be w directory [] files = Inr files"
| "scan_walk be w directory ((root_dir, dirs, filenames) # rest) files =
     (case scan_names be w directory root_dir False filenames files of
        Inl fs \<Rightarrow> Inl fs
      | Inr fs \<Rightarrow>
          (case scan_names be w directory root_dir True dirs fs of
             Inl fs' \<Rightarrow> Inl fs'
           | Inr fs' \<Rightarrow> scan_walk be w directory rest fs'))"

text \<open>
  The remote branch calls the nested \<open>list_remote_dir\<close>. Its body tests every item with
  \<open>stat.S_ISDIR(item.st_mode)\<close>, but the module \<open>stat\<close> is never imported, and the name
  \<open>stat\<close> is a local variable of the enclosing \<open>_list_files\<close> (assigned in the local
  branch only), so in the remote branch it is an unbound free variable: the test raises
  \<open>NameError\<close> at the first item, the \<open>except Exception\<close> of \<open>list_remote_dir\<close> logs it
  and returns the empty list. A failing \<open>listdir_attr\<close> ends in the same handler, and
  an empty directory gives the empty list without an error.
\<close>

definition list_remote_dir ::
  "'w backend \<Rightarrow> 'w \<Rightarrow> store \<Rightarrow> string \<Rightarrow> string \<Rightarrow> file_info list \<times> nat" where
  "list_remote_dir be w sftp remote_dir base_dir =
     (case listdir_attr_io be w sftp remote_dir of
        None \<Rightarrow> ([], 1)
      | Some [] \<Rightarrow> ([], 0)
      | Some (item # items) \<Rightarrow> ([], 1))"

text \<open>
  The result pairs the returned list with the number of error records written to the
  logger; the Python function returns the list alone.
\<close>

definition list_files ::
  "'w backend \<Rightarrow> FileSyncer \<Rightarrow> 'w \<Rightarrow> string \<Rightarrow> PathType \<Rightarrow> file_info list \<times> nat" where
  "list_files be sy w directory path_type =
     (if path_type = LOCAL then
        (case scan_walk be w directory (walk_io be w directory) [] of
           Inl files \<Rightarrow> (files, 1)
         | Inr files \<Rightarrow> (files, 0))
      else list_remote_dir be w (sftp_for sy path_type) directory directory)"

subsection \<open>\<open>_create_directory\<close>, \<open>_copy_file\<close>, \<open>_delete_path\<close>\<close>

text \<open>
  Each takes and returns the pair of the counters and the storage; the first component
  of the result is the Python return value.
\<close>

definition create_directory ::
  "'w backend \<Rightarrow> FileSyncer \<Rightarrow> string \<Rightarrow> PathType \<Rightarrow> stats \<times> 'w \<Rightarrow> bool \<times> stats \<times> 'w" where
  "create_directory be sy dirpath path_type st =
     (case st of (s, w) \<Rightarrow>
        if dry_run sy then (True, s, w)
        else (case mkdir_io be w path_type dirpath of
                (w', ok) \<Rightarrow>
                  if ok then (True, s, w')
                  else (False, s\<lparr>errors := errors s + 1\<rparr>, w')))"

definition copy_file ::
  "'w backend \<Rightarrow> FileSyncer \<Rightarrow> string \<Rightarrow> string \<Rightarrow> PathType \<Rightarrow> PathType \<Rightarrow> stats \<times> 'w
     \<Rightarrow> bool \<times> stats \<times> 'w" where
  "copy_file be sy src_path dest_path src_type dst_type st =
     (case st of (s, w) \<Rightarrow>
        if dry_run sy then (True, s, w)
        else
          (case (if dirname dest_path \<noteq> [] \<and> \<not> path_exists be sy w (dirname dest_path) dst_type
                 then create_directory be sy (dirname dest_path) dst_type (s, w)
                 else (True, s, w)) of
             (made, s1, w1) \<Rightarrow>
               if \<not> made then (False, s1, w1)
               else
                 (let w2 = (if backup sy \<and> path_exists be sy w1 dest_path dst_type
                            then backup_io be w1 dst_type dest_path else w1)
                  in case transfer_io be w2 src_type src_path dst_type dest_path of
                       (w3, n, ok) \<Rightarrow>
                         if ok then (True, s1\<lparr>bytes_transferred := bytes_transferred s1 + n\<rparr>, w3)
                         else (False, s1\<lparr>bytes_transferred := bytes_transferred s1 + n,
                                         errors := errors s1 + 1\<rparr>, w3))))"

definition delete_path ::
  "'w backend \<Rightarrow> FileSyncer \<Rightarrow> string \<Rightarrow> PathType \<Rightarrow> bool \<Rightarrow> stats \<times> 'w \<Rightarrow> bool \<times> stats \<times> 'w" where
  "delete_path be sy p path_type isd st =
     (case st of (s, w) \<Rightarrow>
        if dry_run sy then (True, s, w)
        else
          (let w1 = (if backup sy \<and> \<not> isd then backup_io be w path_type p else w)
           in case remove_io be w1 path_type p isd of
                (w2, ok) \<Rightarrow>
                  if ok then (True, s, w2)
                  else (False, s\<lparr>errors := errors s + 1\<rparr>, w2)))"

subsection \<open>\<open>_detect_conflicts\<close>\<close>

text \<open>
  A Python dictionary is an association list with distinct keys in insertion order:
  storing under a key that is present replaces the value in place.
\<close>

definition dict_of :: "file_info list \<Rightarrow> (string \<times> file_info) list" where
  "dict_of fs = foldl (\<lambda>d f. AList.update (path f) f d) [] fs"

definition is_conflict ::
  "'w backend \<Rightarrow> FileSyncer \<Rightarrow> 'w \<Rightarrow> (string \<times> file_info) list \<Rightarrow> string \<times> file_info \<Rightarrow> bool" where
  "is_conflict be sy w dest_files item =
     (case item of (rel_path, source_file) \<Rightarrow>
        (case map_of dest_files rel_path of
           None \<Rightarrow> False
         | Some dest_file \<Rightarrow>
             if is_dir source_file \<or> is_dir dest_file then False
             else if use_checksum sy then
               calculate_checksum be sy w (full_path source_file)
                   (if source_type sy = REMOTE then REMOTE else LOCAL)
                 \<noteq> calculate_checksum be sy w (full_path dest_file)
                   (if dest_type sy = REMOTE then REMOTE else LOCAL)
             else \<bar>mtime source_file - mtime dest_file\<bar> > 2))"

definition detect_conflicts ::
  "'w backend \<Rightarrow> FileSyncer \<Rightarrow> 'w \<Rightarrow> (string \<times> file_info) list \<Rightarrow> (string \<times> file_info) list
     \<Rightarrow> string list" where
  "detect_conflicts be sy w source_files dest_files =
     (if sync_mode sy \<noteq> TWO_WAY then []
      else map fst (filter (is_conflict be sy w dest_files) source_files))"

subsection \<open>\<open>synchronize\<close>: building the plan\<close>

record plan =
  to_copy :: "(string \<times> string \<times> bool) list"
  to_update :: "(string \<times> string \<times> bool) list"
  to_delete :: "(string \<times> bool) list"
  skipped_paths :: "string list"

definition empty_plan :: plan where
  "empty_plan = \<lparr>to_copy = [], to_update = [], to_delete = [], skipped_paths = []\<rparr>"

definition dest_path_of :: "FileSyncer \<Rightarrow> string \<Rightarrow> string" where
  "dest_path_of sy rel_path =
     (if dest_type sy = LOCAL then path_join (destination sy) rel_path
      else replace_backslash (path_join (destination sy) rel_path))"

text \<open>The final \<open>if\<close>/\<open>elif\<close>/\<open>else\<close> of the loop body, which files an action.\<close>

definition route :: "FileAction \<Rightarrow> string \<times> string \<times> bool \<Rightarrow> string \<Rightarrow> plan \<Rightarrow> plan" where
  "route action entry rel_path p =
     (if action = COPY then p\<lparr>to_copy := to_copy p @ [entry]\<rparr>
      else if action = UPDATE then p\<lparr>to_update := to_update p @ [entry]\<rparr>
      else p\<lparr>skipped_paths := skipped_paths p @ [rel_path]\<rparr>)"

text \<open>
  One iteration of the loop over \<open>source_files.items()\<close>. It changes the lists of the
  plan and the counter \<open>conflicts\<close>; \<open>None\<close> is the \<open>TypeError\<close> of \<open>_resolve_conflict\<close>.
\<close>

definition plan_step ::
  "'w backend \<Rightarrow> FileSyncer \<Rightarrow> 'w \<Rightarrow> (string \<times> file_info) list \<Rightarrow> string list
     \<Rightarrow> string \<times> file_info \<Rightarrow> plan \<times> stats \<Rightarrow> (plan \<times> stats) option" where
  "plan_step be sy w dest_files cfl item ps =
     (case item of (rel_path, source_file) \<Rightarrow>
      case ps of (p, s) \<Rightarrow>
        (let dest_file = map_of dest_files rel_path;
             source_path = full_path source_file;
             dest_path = dest_path_of sy rel_path;
             entry = (source_path, dest_path, is_dir source_file)
         in if is_dir source_file then
              (if dest_file = None then Some (p\<lparr>to_copy := to_copy p @ [entry]\<rparr>, s)
               else Some (p, s))
            else if rel_path \<in> set cfl then
              (case resolve_conflict sy source_file dest_file of
                 None \<Rightarrow> None
               | Some action \<Rightarrow>
                   if action = SKIP then
                     Some (p\<lparr>skipped_paths := skipped_paths p @ [rel_path]\<rparr>,
                           s\<lparr>conflicts := conflicts s + 1\<rparr>)
                   else Some (route action entry rel_path p, s))
            else
              Some (route (compare_files be sy w source_file dest_file source_path dest_path)
                      entry rel_path p, s)))"

fun plan_loop ::
  "'w backend \<Rightarrow> FileSyncer \<Rightarrow> 'w \<Rightarrow> (string \<times> file_info) list \<Rightarrow> string list
     \<Rightarrow> (string \<times> file_info) list \<Rightarrow> plan \<times> stats \<Rightarrow> (plan \<times> stats) option" where
  "plan_loop be sy w dest_files cfl [] ps = Some ps"
| "plan_loop be sy w dest_files cfl (item # items) ps =
     (case plan_step be sy w dest_files cfl item ps of
        None \<Rightarrow> None
      | Some ps' \<Rightarrow> plan_loop be sy w dest_files cfl items ps')"

text \<open>The loop of the mirror mode over \<open>dest_files.items()\<close>.\<close>

definition plan_deletes ::
  "'w backend \<Rightarrow> FileSyncer \<Rightarrow> (string \<times> file_info) list \<Rightarrow> (string \<times> file_info) list
     \<Rightarrow> (string \<times> bool) list" where
  "plan_deletes be sy source_files dest_files =
     (if sync_mode sy = MIRROR then
        map (\<lambda>(rel_path, dest_file). (full_path dest_file, is_dir dest_file))
          (filter (\<lambda>(rel_path, dest_file).
                     rel_path \<notin> set (map fst source_files)
                     \<and> should_include_file (fnmatch_fn be) sy rel_path)
             dest_files)
      else [])"

definition scan_source :: "'w backend \<Rightarrow> FileSyncer \<Rightarrow> 'w \<Rightarrow> (string \<times> file_info) list" where
  "scan_source be sy w =
     dict_of (filter (\<lambda>f. should_include_file (fnmatch_fn be) sy (path f))
                (fst (list_files be sy w (source sy) (source_type sy))))"

definition scan_dest :: "'w backend \<Rightarrow> FileSyncer \<Rightarrow> 'w \<Rightarrow> (string \<times> file_info) list" where
  "scan_dest be sy w =
     (if path_exists be sy w (destination sy) (dest_type sy)
      then dict_of (fst (list_files be sy w (destination sy) (dest_type sy)))
      else [])"

definition build_plan :: "'w backend \<Rightarrow> FileSyncer \<Rightarrow> 'w \<Rightarrow> stats \<Rightarrow> (plan \<times> stats) option" where
  "build_plan be sy w s =
     (let source_files = scan_source be sy w;
          dest_files = scan_dest be sy w;
          cfl = detect_conflicts be sy w source_files dest_files
      in case plan_loop be sy w dest_files cfl source_files (empty_plan, s) of
           None \<Rightarrow> None
         | Some (p, s') \<Rightarrow>
             Some (p\<lparr>to_delete := plan_deletes be sy source_files dest_files\<rparr>, s'))"

subsection \<open>\<open>synchronize\<close>: executing the plan\<close>

fun create_dirs ::
  "'w backend \<Rightarrow> FileSyncer \<Rightarrow> (string \<times> string \<times> bool) list \<Rightarrow> stats \<times> 'w \<Rightarrow> stats \<times> 'w" where
  "create_dirs be sy [] st = st"
| "create_dirs be sy ((source_path, dest_path, isd) # rest) st =
     (if isd then
        (case create_directory be sy dest_path (dest_type sy) st of
           (ok, s, w) \<Rightarrow>
             create_dirs be sy rest ((if ok then s\<lparr>copied := copied s + 1\<rparr> else s), w))
      else create_dirs be sy rest st)"

fun copy_new ::
  "'w backend \<Rightarrow> FileSyncer \<Rightarrow> (string \<times> string \<times> bool) list \<Rightarrow> stats \<times> 'w \<Rightarrow> stats \<times> 'w" where
  "copy_new be sy [] st = st"
| "copy_new be sy ((source_path, dest_path, isd) # rest) st =
     (if \<not> isd then
        (case copy_file be sy source_path dest_path (source_type sy) (dest_type sy) st of
           (ok, s, w) \<Rightarrow>
             copy_new be sy rest ((if ok then s\<lparr>copied := copied s + 1\<rparr> else s), w))
      else copy_new be sy rest st)"

fun update_existing ::
  "'w backend \<Rightarrow> FileSyncer \<Rightarrow> (string \<times> string \<times> bool) list \<Rightarrow> stats \<times> 'w \<Rightarrow> stats \<times> 'w" where
  "update_existing be sy [] st = st"
| "update_existing be sy ((source_path, dest_path, isd) # rest) st =
     (if \<not> isd then
        (case copy_file be sy source_path dest_path (source_type sy) (dest_type sy) st of
           (ok, s, w) \<Rightarrow>
             update_existing be sy rest ((if ok then s\<lparr>updated := updated s + 1\<rparr> else s), w))
      else update_existing be sy rest st)"

fun delete_all ::
  "'w backend \<Rightarrow> FileSyncer \<Rightarrow> (string \<times> bool) list \<Rightarrow> stats \<times> 'w \<Rightarrow> stats \<times> 'w" where
  "delete_all be sy [] st = st"
| "delete_all be sy ((dest_path, isd) # rest) st =
     (case delete_path be sy dest_path (dest_type sy) isd st of
        (ok, s, w) \<Rightarrow>
          delete_all be sy rest ((if ok then s\<lparr>deleted := deleted s + 1\<rparr> else s), w))"

definition execute_plan :: "'w backend \<Rightarrow> FileSyncer \<Rightarrow> plan \<Rightarrow> stats \<times> 'w \<Rightarrow> stats \<times> 'w" where
  "execute_plan be sy p st =
     (case delete_all be sy (to_delete p)
             (update_existing be sy (to_update p)
                (copy_new be sy (to_copy p)
                   (create_dirs be sy (to_copy p) st))) of
        (s, w) \<Rightarrow> (s\<lparr>skipped := length (skipped_paths p)\<rparr>, w))"

subsection \<open>\<open>synchronize\<close>\<close>

text \<open>
  The result is the returned flag, the counters and the storage at the end; \<open>None\<close> is
  an exception that leaves \<open>synchronize\<close>.
\<close>

definition synchronize ::
  "'w backend \<Rightarrow> FileSyncer \<Rightarrow> stats \<Rightarrow> 'w \<Rightarrow> (bool \<times> stats \<times> 'w) option" where
  "synchronize be sy s w =
     (if \<not> path_exists be sy w (source sy) (source_type sy) then Some (False, s, w)
      else
        (case (if \<not> path_exists be sy w (destination sy) (dest_type sy) \<and> sync_mode sy \<noteq> MIRROR
               then create_directory be sy (destination sy) (dest_type sy) (s, w)
               else (True, s, w)) of
           (made, s1, w1) \<Rightarrow>
             if \<not> made then Some (False, s1, w1)
             else
               (case build_plan be sy w1 s1 of
                  None \<Rightarrow> None
                | Some (p, s2) \<Rightarrow>
                    (case execute_plan be sy p (s2, w1) of
                       (s3, w3) \<Rightarrow> Some (errors s3 = 0, s3, w3)))))"

section \<open>A concrete storage backend\<close>

text \<open>
  A small in-memory storage on which the model runs on concrete trees: a local file
  system and one SFTP server, each a list of directories (parents before children) and
  a list of files, and a clock that stamps written files. \<open>Dangling\<close> is a symbolic
  link whose target is missing: \<open>os.walk\<close> lists it among the files, \<open>os.stat\<close> raises
  on it, \<open>os.path.exists\<close> answers \<open>False\<close>.
\<close>

datatype sim_node = File string real | Dangling

record sim_fs =
  fs_dirs :: "string list"
  fs_files :: "(string \<times> sim_node) list"

record sim_world =
  local_fs :: sim_fs
  remote_fs :: sim_fs
  clock :: real

definition fs_of_store :: "sim_world \<Rightarrow> store \<Rightarrow> sim_fs" where
  "fs_of_store w st = (if st = LocalFS then local_fs w else remote_fs w)"

definition fs_of :: "sim_world \<Rightarrow> PathType \<Rightarrow> sim_fs" where
  "fs_of w ty = (if ty = LOCAL then local_fs w else remote_fs w)"

definition set_fs :: "sim_world \<Rightarrow> PathType \<Rightarrow> sim_fs \<Rightarrow> sim_world" where
  "set_fs w ty fs = (if ty = LOCAL then w\<lparr>local_fs := fs\<rparr> else w\<lparr>remote_fs := fs\<rparr>)"

text \<open>Shell patterns with \<open>*\<close> and \<open>?\<close> (no bracket expressions), pattern first.\<close>

fun glob :: "string \<Rightarrow> string \<Rightarrow> bool" where
  "glob [] [] = True"
| "glob [] (c # cs) = False"
| "glob (p # ps) [] = (p = CHR ''*'' \<and> glob ps [])"
| "glob (p # ps) (c # cs) =
     (if p = CHR ''*'' then glob ps (c # cs) \<or> glob (p # ps) cs
      else (p = CHR ''?'' \<or> p = c) \<and> glob ps cs)"

definition sim_fnmatch :: "string \<Rightarrow> string \<Rightarrow> bool" where
  "sim_fnmatch name pat = glob pat name"

definition is_under :: "string \<Rightarrow> string \<Rightarrow> bool" where
  "is_under d p = (take (length d + 1) p = d @ ''/'')"

definition sim_relpath :: "string \<Rightarrow> string \<Rightarrow> string" where
  "sim_relpath p d = (if is_under d p then drop (length d + 1) p else p)"

definition sim_digest :: "string \<Rightarrow> string" where
  "sim_digest bytes = ''md5:'' @ bytes"

definition is_file_node :: "sim_node option \<Rightarrow> bool" where
  "is_file_node n = (case n of Some (File data mt) \<Rightarrow> True | _ \<Rightarrow> False)"

definition sim_exists :: "sim_world \<Rightarrow> store \<Rightarrow> string \<Rightarrow> bool" where
  "sim_exists w st p =
     (p \<in> set (fs_dirs (fs_of_store w st)) \<or> is_file_node (map_of (fs_files (fs_of_store w st)) p))"

definition sim_walk :: "sim_world \<Rightarrow> string \<Rightarrow> (string \<times> string list \<times> string list) list" where
  "sim_walk w d =
     map (\<lambda>x. (x,
                map basename (filter (\<lambda>y. dirname y = x) (fs_dirs (local_fs w))),
                map basename (filter (\<lambda>y. dirname y = x) (map fst (fs_files (local_fs w))))))
       (filter (\<lambda>x. x = d \<or> is_under d x) (fs_dirs (local_fs w)))"

definition sim_stat :: "sim_world \<Rightarrow> string \<Rightarrow> (int \<times> real) option" where
  "sim_stat w p =
     (case map_of (fs_files (local_fs w)) p of
        Some (File data mt) \<Rightarrow> Some (int (length data), mt)
      | Some Dangling \<Rightarrow> None
      | None \<Rightarrow> if p \<in> set (fs_dirs (local_fs w)) then Some (0, 0) else None)"

definition sim_attr :: "string \<times> sim_node \<Rightarrow> string \<times> bool \<times> int \<times> real" where
  "sim_attr e =
     (case e of (p, n) \<Rightarrow>
        (case n of File data mt \<Rightarrow> (basename p, False, int (length data), mt)
                 | Dangling \<Rightarrow> (basename p, False, 0, 0)))"

definition sim_listdir_attr ::
  "sim_world \<Rightarrow> store \<Rightarrow> string \<Rightarrow> (string \<times> bool \<times> int \<times> real) list option" where
  "sim_listdir_attr w st d =
     (if d \<in> set (fs_dirs (fs_of_store w st)) then
        Some (map (\<lambda>y. (basename y, True, 0, 0))
                (filter (\<lambda>y. dirname y = d) (fs_dirs (fs_of_store w st)))
              @ map sim_attr (filter (\<lambda>e. dirname (fst e) = d) (fs_files (fs_of_store w st))))
      else None)"

definition sim_read :: "sim_world \<Rightarrow> store \<Rightarrow> string \<Rightarrow> string option" where
  "sim_read w st p =
     (case map_of (fs_files (fs_of_store w st)) p of
        Some (File data mt) \<Rightarrow> Some data
      | _ \<Rightarrow> None)"

definition sim_mkdir :: "sim_world \<Rightarrow> PathType \<Rightarrow> string \<Rightarrow> sim_world \<times> bool" where
  "sim_mkdir w ty p =
     (if map_of (fs_files (fs_of w ty)) p \<noteq> None then (w, False)
      else if p \<in> set (fs_dirs (fs_of w ty)) then (w, True)
      else (set_fs w ty ((fs_of w ty)\<lparr>fs_dirs := fs_dirs (fs_of w ty) @ [p]\<rparr>), True))"

definition sim_backup :: "sim_world \<Rightarrow> PathType \<Rightarrow> string \<Rightarrow> sim_world" where
  "sim_backup w ty p =
     (case map_of (fs_files (fs_of w ty)) p of
        Some (File data mt) \<Rightarrow>
          set_fs w ty ((fs_of w ty)\<lparr>fs_files :=
            AList.update (p @ ''.bak'') (File data mt) (fs_files (fs_of w ty))\<rparr>)
      | _ \<Rightarrow> w)"

definition sim_transfer ::
  "sim_world \<Rightarrow> PathType \<Rightarrow> string \<Rightarrow> PathType \<Rightarrow> string \<Rightarrow> sim_world \<times> nat \<times> bool" where
  "sim_transfer w sty sp dty dp =
     (case map_of (fs_files (fs_of w sty)) sp of
        Some (File data mt) \<Rightarrow>
          if dp \<in> set (fs_dirs (fs_of w dty)) then (w, 0, False)
          else (set_fs w dty ((fs_of w dty)\<lparr>fs_files :=
                  AList.update dp (File data (clock w)) (fs_files (fs_of w dty))\<rparr>),
                length data, True)
      | _ \<Rightarrow> (w, 0, False))"

definition sim_remove :: "sim_world \<Rightarrow> PathType \<Rightarrow> string \<Rightarrow> bool \<Rightarrow> sim_world \<times> bool" where
  "sim_remove w ty p isd =
     (if isd then
        (if p \<in> set (fs_dirs (fs_of w ty)) then
           (set_fs w ty
              \<lparr>fs_dirs = filter (\<lambda>x. x \<noteq> p \<and> \<not> is_under p x) (fs_dirs (fs_of w ty)),
               fs_files = filter (\<lambda>e. \<not> is_under p (fst e)) (fs_files (fs_of w ty))\<rparr>, True)
         else (w, False))
      else
        (if map_of (fs_files (fs_of w ty)) p \<noteq> None then
           (set_fs w ty ((fs_of w ty)\<lparr>fs_files :=
              filter (\<lambda>e. fst e \<noteq> p) (fs_files (fs_of w ty))\<rparr>), True)
         else (w, False)))"

definition sim :: "sim_world backend" where
  "sim = \<lparr>fnmatch_fn = sim_fnmatch, relpath_fn = sim_relpath, md5_hex = sim_digest,
          exists_io = sim_exists, walk_io = sim_walk, stat_io = sim_stat,
          listdir_attr_io = sim_listdir_attr, read_io = sim_read, mkdir_io = sim_mkdir,
          backup_io = sim_backup, transfer_io = sim_transfer, remove_io = sim_remove\<rparr>"

section \<open>The command line of \<open>main\<close>\<close>

text \<open>
  The options that \<open>argparse\<close> hands to \<open>FileSyncer\<close> when the paths are given on the
  command line: every flag is a \<open>store_true\<close> action, so it is \<open>False\<close> unless given,
  the pattern lists default to \<open>[]\<close> and the mode to \<open>one-way\<close>.
\<close>

record cli_args =
  arg_source :: string
  arg_destination :: string
  arg_dry_run :: bool
  arg_sync_mode :: SyncMode
  arg_exclude :: "string list"
  arg_include :: "string list"
  arg_timestamp :: bool
  arg_checksum :: bool
  arg_backup :: bool
  arg_force :: bool

definition argparse_defaults :: "string \<Rightarrow> string \<Rightarrow> cli_args" where
  "argparse_defaults src dst =
     \<lparr>arg_source = src, arg_destination = dst, arg_dry_run = False, arg_sync_mode = ONE_WAY,
      arg_exclude = [], arg_include = [], arg_timestamp = False, arg_checksum = False,
      arg_backup = False, arg_force = False\<rparr>"

definition get_path_type :: "string \<Rightarrow> PathType" where
  "get_path_type p = (if CHR ''@'' \<in> set p \<and> CHR '':'' \<in> set p then REMOTE else LOCAL)"

text \<open>\<open>path.split(":", 1)[1]\<close>, the path that \<open>setup_connections\<close> stores for a remote tree.\<close>

definition remote_part :: "string \<Rightarrow> string" where
  "remote_part p = drop 1 (dropWhile (\<lambda>c. c \<noteq> CHR '':'') p)"

definition syncer_of_args :: "cli_args \<Rightarrow> FileSyncer" where
  "syncer_of_args a =
     \<lparr>source = (if get_path_type (arg_source a) = REMOTE then remote_part (arg_source a)
                else arg_source a),
      destination = (if get_path_type (arg_destination a) = REMOTE
                     then remote_part (arg_destination a) else arg_destination a),
      dry_run = arg_dry_run a, sync_mode = arg_sync_mode a,
      exclude_patterns = arg_exclude a, include_patterns = arg_include a,
      use_timestamp = arg_timestamp a, use_checksum = arg_checksum a,
      backup = arg_backup a, force = arg_force a,
      source_type = get_path_type (arg_source a),
      dest_type = get_path_type (arg_destination a)\<rparr>"

section \<open>Concrete trees\<close>

text \<open>
  A source \<open>/src\<close> and a destination \<open>/dst\<close> on the local file system, each holding
  \<open>a.txt\<close> with five bytes of different content; the source copy is ten seconds newer.
\<close>

definition tree_a :: sim_world where
  "tree_a = \<lparr>local_fs = \<lparr>fs_dirs = [''/src'', ''/dst''],
               fs_files = [(''/src/a.txt'', File ''hello'' 100), (''/dst/a.txt'', File ''world'' 90)]\<rparr>,
             remote_fs = \<lparr>fs_dirs = [], fs_files = []\<rparr>, clock = 1000\<rparr>"

definition src_a :: file_info where
  "src_a = \<lparr>path = ''a.txt'', full_path = ''/src/a.txt'', size_of = 5, mtime = 100, is_dir = False\<rparr>"

definition dst_a :: file_info where
  "dst_a = \<lparr>path = ''a.txt'', full_path = ''/dst/a.txt'', size_of = 5, mtime = 90, is_dir = False\<rparr>"

definition plain_syncer :: FileSyncer where
  "plain_syncer = syncer_of_args (argparse_defaults ''/src'' ''/dst'')"

text \<open>
  \<open>shared.txt\<close> as the two scans of a two-way run see it: the destination copy was
  modified one hundred seconds after the source copy.
\<close>

definition two_way_syncer :: FileSyncer where
  "two_way_syncer = syncer_of_args ((argparse_defaults ''/src'' ''/dst'')\<lparr>arg_sync_mode := TWO_WAY\<rparr>)"

definition shared_src :: file_info where
  "shared_src = \<lparr>path = ''shared.txt'', full_path = ''/src/shared.txt'', size_of = 4,
                  mtime = 100, is_dir = False\<rparr>"

definition shared_dst :: file_info where
  "shared_dst = \<lparr>path = ''shared.txt'', full_path = ''/dst/shared.txt'', size_of = 4,
                  mtime = 200, is_dir = False\<rparr>"

text \<open>
  A mirror run with the exclude pattern \<open>*.tmp\<close> and timestamp comparison: the source
  holds \<open>a.txt\<close> (newer than the destination's copy, same size) and \<open>b.txt\<close> (new); the
  destination also holds \<open>old.tmp\<close> and \<open>old.txt\<close>, which the source does not have.
\<close>

definition tree_m :: sim_world where
  "tree_m = \<lparr>local_fs = \<lparr>fs_dirs = [''/src'', ''/dst''],
               fs_files = [(''/src/a.txt'', File ''hello'' 100), (''/src/b.txt'', File ''new'' 50),
                           (''/dst/a.txt'', File ''world'' 90), (''/dst/old.tmp'', File ''x'' 5),
                           (''/dst/old.txt'', File ''y'' 6)]\<rparr>,
             remote_fs = \<lparr>fs_dirs = [], fs_files = []\<rparr>, clock = 1000\<rparr>"

definition mirror_syncer :: FileSyncer where
  "mirror_syncer = syncer_of_args ((argparse_defaults ''/src'' ''/dst'')
     \<lparr>arg_sync_mode := MIRROR, arg_exclude := [''*.tmp''], arg_timestamp := True\<rparr>)"

definition plan_m :: plan where
  "plan_m = \<lparr>to_copy = [(''/src/b.txt'', ''/dst/b.txt'', False)],
             to_update = [(''/src/a.txt'', ''/dst/a.txt'', False)],
             to_delete = [(''/dst/old.txt'', False)],
             skipped_paths = []\<rparr>"

text \<open>A run whose source directory does not exist.\<close>

definition missing_syncer :: FileSyncer where
  "missing_syncer = syncer_of_args (argparse_defaults ''/nosuch'' ''/dst'')"






text \<open>
  A local source with one file and an existing, empty directory on the SFTP server
  (\<open>tree_r\<close>), synchronised one-way by \<open>remote_syncer\<close>, the object that \<open>main\<close> builds
  for \<open>/src user@host:/dst\<close>.
\<close>

definition tree_r :: sim_world where
  "tree_r = \<lparr>local_fs = \<lparr>fs_dirs = [''/src''], fs_files = [(''/src/a.txt'', File ''hello'' 100)]\<rparr>,
             remote_fs = \<lparr>fs_dirs = [''/dst''], fs_files = []\<rparr>, clock = 1000\<rparr>"

definition remote_syncer :: FileSyncer where
  "remote_syncer = syncer_of_args (argparse_defaults ''/src'' ''user@host:/dst'')"

text \<open>The counters and the storage that the first run of \<open>remote_syncer\<close> leaves.\<close>

definition stats_r1 :: stats where
  "stats_r1 = stats0\<lparr>copied := 1, bytes_transferred := 5\<rparr>"

definition tree_r1 :: sim_world where
  "tree_r1 = tree_r\<lparr>remote_fs := \<lparr>fs_dirs = [''/dst''],
                                     fs_files = [(''/dst/a.txt'', File ''hello'' 1000)]\<rparr>\<rparr>"

section \<open>What a local scan returns\<close>







section \<open>Properties\<close>


lemmas syncer_defs = plain_syncer_def syncer_of_args_def argparse_defaults_def get_path_type_def
  remote_part_def

subsection \<open>The comparator\<close>



text \<open>
  Claim C10. The command line leaves both comparison options off unless the flags are
  given, and with both off the comparator answers \<open>SKIP\<close> for every source file whose
  destination entry exists with the same size, whatever the contents and the
  modification times.
\<close>

theorem default_comparison_is_size_only:
  "use_timestamp (syncer_of_args (argparse_defaults src dst)) = False \<and>
   use_checksum (syncer_of_args (argparse_defaults src dst)) = False \<and>
   (\<not> use_timestamp sy \<and> \<not> use_checksum sy \<and> size_of s = size_of d
      \<longrightarrow> compare_files be sy w s (Some d) sp dp = SKIP)"
  by (simp add: compare_files_def syncer_of_args_def argparse_defaults_def)

theorem default_comparison_is_size_only_witness:
  "compare_files sim plain_syncer tree_a src_a (Some dst_a) ''/src/a.txt'' ''/dst/a.txt'' = SKIP"
  using default_comparison_is_size_only
      [of "''/src''" "''/dst''" plain_syncer src_a dst_a sim tree_a "''/src/a.txt''" "''/dst/a.txt''"]
  by (simp add: syncer_defs src_a_def dst_a_def)

subsection \<open>The filter\<close>

text \<open>
  Claim C7. The filter rejects a path whenever the path or its base name matches an
  exclude pattern, whatever the include patterns; with a non-empty include list it
  accepts only paths that match an include pattern (by path or base name); with an empty
  include list it accepts every path that no exclude pattern matches.
\<close>

theorem should_include_file_filter:
  "((\<exists>pat \<in> set (exclude_patterns sy). fnm p pat \<or> fnm (basename p) pat)
      \<longrightarrow> \<not> should_include_file fnm sy p) \<and>
   (include_patterns sy \<noteq> [] \<and> should_include_file fnm sy p
      \<longrightarrow> (\<exists>pat \<in> set (include_patterns sy). fnm p pat \<or> fnm (basename p) pat)) \<and>
   (include_patterns sy = [] \<and> \<not> (\<exists>pat \<in> set (exclude_patterns sy). fnm p pat \<or> fnm (basename p) pat)
      \<longrightarrow> should_include_file fnm sy p)"
  unfolding should_include_file_def matches_any_def list_ex_iff by (simp split: if_splits)

theorem should_include_file_filter_witness:
  "\<not> should_include_file sim_fnmatch
       (plain_syncer\<lparr>exclude_patterns := [''*.tmp''], include_patterns := [''*'']\<rparr>) ''sub/x.tmp'' \<and>
   should_include_file sim_fnmatch (plain_syncer\<lparr>include_patterns := [''*.py'']\<rparr>) ''sub/x.py'' \<and>
   (\<exists>pat \<in> set [''*.py'']. sim_fnmatch ''sub/x.py'' pat \<or> sim_fnmatch (basename ''sub/x.py'') pat) \<and>
   should_include_file sim_fnmatch plain_syncer ''sub/x.py''"
  using should_include_file_filter
      [of "plain_syncer\<lparr>exclude_patterns := [''*.tmp''], include_patterns := [''*'']\<rparr>"
          sim_fnmatch "''sub/x.tmp''"]
    should_include_file_filter
      [of "plain_syncer\<lparr>include_patterns := [''*.py'']\<rparr>" sim_fnmatch "''sub/x.py''"]
    should_include_file_filter [of plain_syncer sim_fnmatch "''sub/x.py''"]
  by (simp add: syncer_defs sim_fnmatch_def basename_def should_include_file_def matches_any_def)

subsection \<open>Conflicts\<close>


lemma detect_conflicts_mem:
  "rel \<in> set (detect_conflicts be sy w source_files dest_files) \<longleftrightarrow>
     sync_mode sy = TWO_WAY \<and> (\<exists>sf. (rel, sf) \<in> set source_files \<and> is_conflict be sy w dest_files (rel, sf))"
  unfolding detect_conflicts_def by (cases "sync_mode sy = TWO_WAY") (force+)

lemma is_conflict_dest:
  "is_conflict be sy w dest_files (rel, sf) \<Longrightarrow>
     \<exists>d. map_of dest_files rel = Some d \<and> \<not> is_dir sf \<and> \<not> is_dir d"
  unfolding is_conflict_def by (simp split: option.splits if_splits)

lemma distinct_keys_unique:
  "distinct (map fst xs) \<Longrightarrow> (k, a) \<in> set xs \<Longrightarrow> (k, b) \<in> set xs \<Longrightarrow> a = b"
  by (induction xs) (auto simp: image_iff)

lemma plan_step_conflict_skip:
  assumes "\<not> is_dir sf" "rel \<in> set cfl" "resolve_conflict sy sf (map_of dest_files rel) = Some SKIP"
  shows "plan_step be sy w dest_files cfl (rel, sf) (p, st)
         = Some (p\<lparr>skipped_paths := skipped_paths p @ [rel]\<rparr>, st\<lparr>conflicts := conflicts st + 1\<rparr>)"
  using assms unfolding plan_step_def by (simp add: Let_def)

lemma resolve_conflict_forced: "force sy \<Longrightarrow> resolve_conflict sy sf dest = Some UPDATE"
  by (simp add: resolve_conflict_def)

lemma resolve_conflict_unforced:
  "\<not> force sy \<Longrightarrow>
     resolve_conflict sy sf (Some d) = Some (if mtime sf > mtime d then UPDATE else SKIP)"
  by (simp add: resolve_conflict_def)

text \<open>
  Claim C5. For a path that the conflict detector flagged (which happens in two-way mode
  only, and only for a file present on both sides), the resolver answers \<open>UPDATE\<close> when
  \<open>force\<close> is set; without \<open>force\<close> it answers \<open>UPDATE\<close> when the source modification
  time is strictly newer and \<open>SKIP\<close> otherwise. Without \<open>force\<close> and with a destination
  at least as new, the iteration of the planning loop for that path adds it to the
  skipped paths and leaves the copy and update lists as they were.
\<close>


theorem conflict_resolution:
  assumes "cfl = detect_conflicts be sy w source_files dest_files"
    and "(rel, sf) \<in> set source_files"
    and "distinct (map fst source_files)"
    and "rel \<in> set cfl"
  shows "\<exists>d. map_of dest_files rel = Some d \<and> sync_mode sy = TWO_WAY \<and>
    (force sy \<longrightarrow> resolve_conflict sy sf (Some d) = Some UPDATE) \<and>
    (\<not> force sy \<longrightarrow>
       resolve_conflict sy sf (Some d) = Some (if mtime sf > mtime d then UPDATE else SKIP)) \<and>
    (\<not> force sy \<and> mtime sf \<le> mtime d \<longrightarrow>
       plan_step be sy w dest_files cfl (rel, sf) (p, st)
         = Some (p\<lparr>skipped_paths := skipped_paths p @ [rel]\<rparr>, st\<lparr>conflicts := conflicts st + 1\<rparr>))"
proof -
  from assms(1,4) have "rel \<in> set (detect_conflicts be sy w source_files dest_files)"
    by simp
  then have "sync_mode sy = TWO_WAY \<and>
      (\<exists>sf'. (rel, sf') \<in> set source_files \<and> is_conflict be sy w dest_files (rel, sf'))"
    by (simp only: detect_conflicts_mem)
  then obtain sf' where m: "sync_mode sy = TWO_WAY"
    and sf': "(rel, sf') \<in> set source_files" and c: "is_conflict be sy w dest_files (rel, sf')"
    by (elim conjE exE)
  from assms(3) sf' assms(2) have "sf' = sf"
    by (rule distinct_keys_unique)
  with c have c': "is_conflict be sy w dest_files (rel, sf)"
    by (simp only:)
  from is_conflict_dest [OF c'] obtain d where d: "map_of dest_files rel = Some d" and nd: "\<not> is_dir sf"
    by (elim conjE exE)
  have r3: "\<not> force sy \<and> mtime sf \<le> mtime d \<longrightarrow>
       plan_step be sy w dest_files cfl (rel, sf) (p, st)
         = Some (p\<lparr>skipped_paths := skipped_paths p @ [rel]\<rparr>, st\<lparr>conflicts := conflicts st + 1\<rparr>)"
  proof
    assume a: "\<not> force sy \<and> mtime sf \<le> mtime d"
    then have "resolve_conflict sy sf (Some d) = Some SKIP"
      by (simp add: resolve_conflict_unforced)
    then have "resolve_conflict sy sf (map_of dest_files rel) = Some SKIP"
      by (simp only: d)
    with nd assms(4) show "plan_step be sy w dest_files cfl (rel, sf) (p, st)
         = Some (p\<lparr>skipped_paths := skipped_paths p @ [rel]\<rparr>, st\<lparr>conflicts := conflicts st + 1\<rparr>)"
      by (rule plan_step_conflict_skip)
  qed
  show ?thesis
  proof (intro exI conjI)
    show "map_of dest_files rel = Some d" by (rule d)
    show "sync_mode sy = TWO_WAY" by (rule m)
    show "force sy \<longrightarrow> resolve_conflict sy sf (Some d) = Some UPDATE"
      by (simp add: resolve_conflict_forced)
    show "\<not> force sy \<longrightarrow>
       resolve_conflict sy sf (Some d) = Some (if mtime sf > mtime d then UPDATE else SKIP)"
      by (simp add: resolve_conflict_unforced)
    show "\<not> force sy \<and> mtime sf \<le> mtime d \<longrightarrow>
       plan_step be sy w dest_files cfl (rel, sf) (p, st)
         = Some (p\<lparr>skipped_paths := skipped_paths p @ [rel]\<rparr>, st\<lparr>conflicts := conflicts st + 1\<rparr>)"
      by (rule r3)
  qed
qed

theorem conflict_resolution_witness:
  "detect_conflicts sim two_way_syncer tree_a [(''shared.txt'', shared_src)] [(''shared.txt'', shared_dst)]
     = [''shared.txt''] \<and>
   resolve_conflict two_way_syncer shared_src (Some shared_dst) = Some SKIP \<and>
   plan_step sim two_way_syncer tree_a [(''shared.txt'', shared_dst)] [''shared.txt'']
       (''shared.txt'', shared_src) (empty_plan, stats0)
     = Some (empty_plan\<lparr>skipped_paths := [''shared.txt'']\<rparr>, stats0\<lparr>conflicts := 1\<rparr>)"
proof -
  have c: "detect_conflicts sim two_way_syncer tree_a [(''shared.txt'', shared_src)]
      [(''shared.txt'', shared_dst)] = [''shared.txt'']"
    by (simp add: detect_conflicts_def is_conflict_def two_way_syncer_def syncer_of_args_def
          argparse_defaults_def shared_src_def shared_dst_def)
  have f: "\<not> force two_way_syncer"
    by (simp add: two_way_syncer_def syncer_of_args_def argparse_defaults_def)
  have t: "mtime shared_src \<le> mtime shared_dst"
    by (simp add: shared_src_def shared_dst_def)
  from conflict_resolution
    [of "[''shared.txt'']" sim two_way_syncer tree_a "[(''shared.txt'', shared_src)]"
        "[(''shared.txt'', shared_dst)]" "''shared.txt''" shared_src empty_plan stats0]
    c f t
  show ?thesis
    by (simp add: empty_plan_def stats0_def)
qed

subsection \<open>The plan is always built\<close>


lemma plan_step_total:
  assumes "rel \<in> set cfl \<Longrightarrow> \<not> is_dir sf \<Longrightarrow> map_of dest_files rel \<noteq> None"
  shows "\<exists>ps'. plan_step be sy w dest_files cfl (rel, sf) ps = Some ps'"
proof (cases ps)
  case (Pair p s)
  show ?thesis
  proof (cases "\<not> is_dir sf \<and> rel \<in> set cfl")
    case True
    with assms obtain d where d: "map_of dest_files rel = Some d" by blast
    have "\<exists>a. resolve_conflict sy sf (Some d) = Some a"
      by (simp add: resolve_conflict_def)
    then obtain a where a: "resolve_conflict sy sf (Some d) = Some a" ..
    from True d a Pair show ?thesis
      unfolding plan_step_def by (simp add: Let_def)
  next
    case False
    with Pair show ?thesis
      unfolding plan_step_def by (auto simp: Let_def)
  qed
qed

lemma plan_loop_total:
  assumes "\<And>rel sf. (rel, sf) \<in> set items \<Longrightarrow> rel \<in> set cfl \<Longrightarrow> \<not> is_dir sf
             \<Longrightarrow> map_of dest_files rel \<noteq> None"
  shows "\<exists>ps'. plan_loop be sy w dest_files cfl items ps = Some ps'"
  using assms
proof (induction items arbitrary: ps)
  case Nil
  show ?case by simp
next
  case (Cons item items)
  obtain rel sf where i: "item = (rel, sf)" by (cases item)
  have "\<exists>ps'. plan_step be sy w dest_files cfl (rel, sf) ps = Some ps'"
  proof (rule plan_step_total)
    assume "rel \<in> set cfl" "\<not> is_dir sf"
    then show "map_of dest_files rel \<noteq> None"
      using Cons.prems [of rel sf] i by simp
  qed
  then obtain ps' where s: "plan_step be sy w dest_files cfl item ps = Some ps'"
    using i by blast
  have "\<exists>ps''. plan_loop be sy w dest_files cfl items ps' = Some ps''"
  proof (rule Cons.IH)
    fix r f
    assume "(r, f) \<in> set items" "r \<in> set cfl" "\<not> is_dir f"
    then show "map_of dest_files r \<noteq> None"
      using Cons.prems [of r f] by simp
  qed
  with s show ?case by simp
qed

lemma detect_conflicts_in_dest:
  assumes "rel \<in> set (detect_conflicts be sy w source_files dest_files)"
  shows "map_of dest_files rel \<noteq> None"
proof -
  from assms obtain sf where "is_conflict be sy w dest_files (rel, sf)"
    unfolding detect_conflicts_mem by blast
  from is_conflict_dest [OF this] show ?thesis by blast
qed

lemma build_plan_total: "\<exists>p s'. build_plan be sy w s = Some (p, s')"
proof -
  have "\<exists>ps'. plan_loop be sy w (scan_dest be sy w)
           (detect_conflicts be sy w (scan_source be sy w) (scan_dest be sy w))
           (scan_source be sy w) (empty_plan, s) = Some ps'"
    by (rule plan_loop_total) (rule detect_conflicts_in_dest)
  then obtain p s' where "plan_loop be sy w (scan_dest be sy w)
           (detect_conflicts be sy w (scan_source be sy w) (scan_dest be sy w))
           (scan_source be sy w) (empty_plan, s) = Some (p, s')"
    by (metis surj_pair)
  then show ?thesis
    unfolding build_plan_def by (simp add: Let_def)
qed

lemma build_plan_to_delete:
  assumes "build_plan be sy w s = Some (p, s')"
  shows "to_delete p = plan_deletes be sy (scan_source be sy w) (scan_dest be sy w)"
  using assms unfolding build_plan_def
  by (auto simp: Let_def split: option.splits)

lemma plan_deletes_mem:
  "(dp, isd) \<in> set (plan_deletes be sy source_files dest_files) \<longleftrightarrow>
     sync_mode sy = MIRROR \<and>
     (\<exists>rel_path dest_file. (rel_path, dest_file) \<in> set dest_files
        \<and> rel_path \<notin> fst ` set source_files
        \<and> should_include_file (fnmatch_fn be) sy rel_path
        \<and> dp = full_path dest_file \<and> isd = is_dir dest_file)"
  unfolding plan_deletes_def by (cases "sync_mode sy = MIRROR") (force+)

subsection \<open>Counters of the executor\<close>

text \<open>
  Each call of \<open>_create_directory\<close>, \<open>_copy_file\<close> and \<open>_delete_path\<close> either
  succeeds, and its loop adds one to its own counter, or fails and adds one to \<open>errors\<close>.
\<close>


lemma create_directory_effect:
  assumes "create_directory be sy d ty (s, w) = (ok, s', w')"
  shows "s' = (if ok then s else s\<lparr>errors := errors s + 1\<rparr>)"
  using assms unfolding create_directory_def
  by (auto split: if_splits prod.splits)


lemma copy_file_dry:
  "dry_run sy \<Longrightarrow> copy_file be sy sp dp sty dty (s, w) = (True, s, w)"
  by (simp add: copy_file_def)



lemma copy_file_effect:
  assumes "copy_file be sy sp dp sty dty (s, w) = (ok, s', w')"
  shows "\<exists>n. s' = (if ok then s\<lparr>bytes_transferred := bytes_transferred s + n\<rparr>
                   else s\<lparr>bytes_transferred := bytes_transferred s + n, errors := errors s + 1\<rparr>)"
proof (cases "dry_run sy")
  case True
  with assms have "ok" "s' = s" by (simp_all add: copy_file_dry)
  then have "s' = (if ok then s\<lparr>bytes_transferred := bytes_transferred s + 0\<rparr>
                   else s\<lparr>bytes_transferred := bytes_transferred s + 0, errors := errors s + 1\<rparr>)"
    by simp
  then show ?thesis ..
next
  case False
  obtain made s1 w1 where m: "(if dirname dp \<noteq> [] \<and> \<not> path_exists be sy w (dirname dp) dty
                 then create_directory be sy (dirname dp) dty (s, w)
                 else (True, s, w)) = (made, s1, w1)"
    by (metis prod_cases3)
  have s1: "s1 = (if made then s else s\<lparr>errors := errors s + 1\<rparr>)"
  proof (cases "dirname dp \<noteq> [] \<and> \<not> path_exists be sy w (dirname dp) dty")
    case True
    with m have "create_directory be sy (dirname dp) dty (s, w) = (made, s1, w1)" by simp
    then show ?thesis by (rule create_directory_effect)
  next
    case False
    with m show ?thesis by auto
  qed
  show ?thesis
  proof (cases made)
    case False
    with assms \<open>\<not> dry_run sy\<close> m have "ok = False" "s' = s1"
      unfolding copy_file_def by simp_all
    with s1 False have "s' = (if ok then s\<lparr>bytes_transferred := bytes_transferred s + 0\<rparr>
                   else s\<lparr>bytes_transferred := bytes_transferred s + 0, errors := errors s + 1\<rparr>)"
      by simp
    then show ?thesis ..
  next
    case True
    with s1 have e: "s1 = s" by simp
    obtain w3 n tok where t: "transfer_io be
        (if backup sy \<and> path_exists be sy w1 dp dty then backup_io be w1 dty dp else w1)
        sty sp dty dp = (w3, n, tok)"
      by (metis prod_cases3)
    from assms \<open>\<not> dry_run sy\<close> m True t e
    have "s' = (if ok then s\<lparr>bytes_transferred := bytes_transferred s + n\<rparr>
                   else s\<lparr>bytes_transferred := bytes_transferred s + n, errors := errors s + 1\<rparr>)"
      unfolding copy_file_def by (auto simp: Let_def split: if_splits)
    then show ?thesis ..
  qed
qed

lemma create_dirs_counts:
  "create_dirs be sy xs (s, w) = (s', w') \<Longrightarrow>
     copied s' + errors s' = copied s + errors s + length (filter (\<lambda>e. snd (snd e)) xs) \<and>
     errors s \<le> errors s' \<and> copied s \<le> copied s' \<and> updated s' = updated s \<and>
     deleted s' = deleted s \<and> skipped s' = skipped s \<and> conflicts s' = conflicts s"
proof (induction xs arbitrary: s w)
  case Nil
  then show ?case by simp
next
  case (Cons x xs)
  obtain sp dp isd where x: "x = (sp, dp, isd)" by (cases x)
  show ?case
  proof (cases isd)
    case False
    with Cons.prems x have "create_dirs be sy xs (s, w) = (s', w')" by simp
    from Cons.IH [OF this] False x show ?thesis by simp
  next
    case True
    obtain ok s1 w1 where c: "create_directory be sy dp (dest_type sy) (s, w) = (ok, s1, w1)"
      by (metis prod_cases3)
    from create_directory_effect [OF c]
    have s1: "s1 = (if ok then s else s\<lparr>errors := errors s + 1\<rparr>)" .
    from Cons.prems x True c
    have "create_dirs be sy xs ((if ok then s1\<lparr>copied := copied s1 + 1\<rparr> else s1), w1) = (s', w')"
      by simp
    from Cons.IH [OF this] s1 x True show ?thesis
      by (cases ok) simp_all
  qed
qed

lemma copy_new_counts:
  "copy_new be sy xs (s, w) = (s', w') \<Longrightarrow>
     copied s' + errors s' = copied s + errors s + length (filter (\<lambda>e. \<not> snd (snd e)) xs) \<and>
     errors s \<le> errors s' \<and> copied s \<le> copied s' \<and> updated s' = updated s \<and>
     deleted s' = deleted s \<and> skipped s' = skipped s \<and> conflicts s' = conflicts s"
proof (induction xs arbitrary: s w)
  case Nil
  then show ?case by simp
next
  case (Cons x xs)
  obtain sp dp isd where x: "x = (sp, dp, isd)" by (cases x)
  show ?case
  proof (cases isd)
    case True
    with Cons.prems x have "copy_new be sy xs (s, w) = (s', w')" by simp
    from Cons.IH [OF this] True x show ?thesis by simp
  next
    case False
    obtain ok s1 w1 where c:
      "copy_file be sy sp dp (source_type sy) (dest_type sy) (s, w) = (ok, s1, w1)"
      by (metis prod_cases3)
    from copy_file_effect [OF c] obtain n where
      s1: "s1 = (if ok then s\<lparr>bytes_transferred := bytes_transferred s + n\<rparr>
                 else s\<lparr>bytes_transferred := bytes_transferred s + n, errors := errors s + 1\<rparr>)" ..
    from Cons.prems x False c
    have "copy_new be sy xs ((if ok then s1\<lparr>copied := copied s1 + 1\<rparr> else s1), w1) = (s', w')"
      by simp
    from Cons.IH [OF this] s1 x False show ?thesis
      by (cases ok) simp_all
  qed
qed

lemma update_existing_counts:
  "update_existing be sy xs (s, w) = (s', w') \<Longrightarrow>
     updated s' + errors s' = updated s + errors s + length (filter (\<lambda>e. \<not> snd (snd e)) xs) \<and>
     errors s \<le> errors s' \<and> updated s \<le> updated s' \<and> copied s' = copied s \<and>
     deleted s' = deleted s \<and> skipped s' = skipped s \<and> conflicts s' = conflicts s"
proof (induction xs arbitrary: s w)
  case Nil
  then show ?case by simp
next
  case (Cons x xs)
  obtain sp dp isd where x: "x = (sp, dp, isd)" by (cases x)
  show ?case
  proof (cases isd)
    case True
    with Cons.prems x have "update_existing be sy xs (s, w) = (s', w')" by simp
    from Cons.IH [OF this] True x show ?thesis by simp
  next
    case False
    obtain ok s1 w1 where c:
      "copy_file be sy sp dp (source_type sy) (dest_type sy) (s, w) = (ok, s1, w1)"
      by (metis prod_cases3)
    from copy_file_effect [OF c] obtain n where
      s1: "s1 = (if ok then s\<lparr>bytes_transferred := bytes_transferred s + n\<rparr>
                 else s\<lparr>bytes_transferred := bytes_transferred s + n, errors := errors s + 1\<rparr>)" ..
    from Cons.prems x False c
    have "update_existing be sy xs ((if ok then s1\<lparr>updated := updated s1 + 1\<rparr> else s1), w1) = (s', w')"
      by simp
    from Cons.IH [OF this] s1 x False show ?thesis
      by (cases ok) simp_all
  qed
qed









subsection \<open>The plan does not depend on the dry-run flag\<close>














lemma plan_step_counters:
  assumes "plan_step be sy w dest_files cfl item (p, s) = Some (p', s')"
  shows "errors s' = errors s \<and> copied s' = copied s \<and> updated s' = updated s \<and>
         deleted s' = deleted s \<and> to_delete p' = to_delete p"
  using assms unfolding plan_step_def route_def
  by (cases item) (auto simp: Let_def split: if_splits option.splits)

lemma plan_loop_counters:
  "plan_loop be sy w dest_files cfl items (p, s) = Some (p', s') \<Longrightarrow>
     errors s' = errors s \<and> copied s' = copied s \<and> updated s' = updated s \<and>
     deleted s' = deleted s"
proof (induction items arbitrary: p s)
  case Nil
  then show ?case by simp
next
  case (Cons item items)
  from Cons.prems obtain p1 s1 where
    a: "plan_step be sy w dest_files cfl item (p, s) = Some (p1, s1)" and
    b: "plan_loop be sy w dest_files cfl items (p1, s1) = Some (p', s')"
    by (auto split: option.splits)
  from plan_step_counters [OF a] Cons.IH [OF b] show ?case by simp
qed

lemma build_plan_counters:
  assumes "build_plan be sy w s = Some (p, s')"
  shows "errors s' = errors s \<and> copied s' = copied s \<and> updated s' = updated s \<and>
         deleted s' = deleted s"
proof -
  from assms obtain p0 where
    "plan_loop be sy w (scan_dest be sy w)
       (detect_conflicts be sy w (scan_source be sy w) (scan_dest be sy w))
       (scan_source be sy w) (empty_plan, s) = Some (p0, s')"
    unfolding build_plan_def by (auto simp: Let_def split: option.splits)
  then show ?thesis by (rule plan_loop_counters)
qed

subsection \<open>Whole runs\<close>


lemma synchronize_no_source:
  "\<not> path_exists be sy w (source sy) (source_type sy) \<Longrightarrow>
     synchronize be sy s w = Some (False, s, w)"
  by (simp add: synchronize_def)




lemma run_m_dry:
  "synchronize sim (mirror_syncer\<lparr>dry_run := True\<rparr>) stats0 tree_m
     = Some (True, stats0\<lparr>copied := 1, updated := 1, deleted := 1\<rparr>, tree_m)"
  by code_simp

lemma run_m_real:
  "synchronize sim (mirror_syncer\<lparr>dry_run := False\<rparr>) stats0 tree_m
     = Some (True, stats0\<lparr>copied := 1, updated := 1, deleted := 1, bytes_transferred := 8\<rparr>,
         tree_m\<lparr>local_fs := \<lparr>fs_dirs = [''/src'', ''/dst''],
            fs_files = [(''/src/a.txt'', File ''hello'' 100), (''/src/b.txt'', File ''new'' 50),
                        (''/dst/a.txt'', File ''hello'' 1000), (''/dst/old.tmp'', File ''x'' 5),
                        (''/dst/b.txt'', File ''new'' 1000)]\<rparr>\<rparr>)"
  by code_simp

lemma exec_m_dry:
  "execute_plan sim (mirror_syncer\<lparr>dry_run := True\<rparr>) plan_m (stats0, tree_m)
     = (stats0\<lparr>copied := 1, updated := 1, deleted := 1\<rparr>, tree_m)"
  by code_simp

lemma exec_m_real:
  "fst (execute_plan sim (mirror_syncer\<lparr>dry_run := False\<rparr>) plan_m (stats0, tree_m))
     = stats0\<lparr>copied := 1, updated := 1, deleted := 1, bytes_transferred := 8\<rparr>"
  by code_simp

lemma dest_m_exists:
  "path_exists sim mirror_syncer tree_m (destination mirror_syncer) (dest_type mirror_syncer)"
  by code_simp

lemma source_m_exists:
  "path_exists sim mirror_syncer tree_m (source mirror_syncer) (source_type mirror_syncer)"
  by code_simp









subsection \<open>Dry runs\<close>




subsection \<open>The returned flag\<close>

text \<open>
  Claim C4, as amended. \<open>synchronize\<close> always returns, and it returns true exactly
  when the source path exists and the error counter is zero at the end. (As stated, the
  claim equates the flag with a zero error counter; a run whose source path is missing
  returns false without counting an error.)
\<close>


theorem synchronize_success_flag:
  "\<exists>ok s' w'. synchronize be sy s w = Some (ok, s', w') \<and>
     (ok \<longleftrightarrow> path_exists be sy w (source sy) (source_type sy) \<and> errors s' = 0)"
proof (cases "path_exists be sy w (source sy) (source_type sy)")
  case False
  then have "synchronize be sy s w = Some (False, s, w)" by (rule synchronize_no_source)
  with False show ?thesis by auto
next
  case True
  obtain made s1 w1 where c:
    "(if \<not> path_exists be sy w (destination sy) (dest_type sy) \<and> sync_mode sy \<noteq> MIRROR
      then create_directory be sy (destination sy) (dest_type sy) (s, w)
      else (True, s, w)) = (made, s1, w1)"
    by (metis prod_cases3)
  show ?thesis
  proof (cases made)
    case False
    with c have "create_directory be sy (destination sy) (dest_type sy) (s, w) = (False, s1, w1)"
      by (auto split: if_splits)
    from create_directory_effect [OF this] have "errors s1 = errors s + 1" by simp
    moreover from True c False have "synchronize be sy s w = Some (False, s1, w1)"
      unfolding synchronize_def by simp
    ultimately show ?thesis by auto
  next
    case m: True
    obtain p s2 where b: "build_plan be sy w1 s1 = Some (p, s2)"
      using build_plan_total [of be sy w1 s1] by (elim exE)
    obtain s3 w3 where e: "execute_plan be sy p (s2, w1) = (s3, w3)" by (metis surj_pair)
    from True c m b e have "synchronize be sy s w = Some (errors s3 = 0, s3, w3)"
      unfolding synchronize_def by simp
    with True show ?thesis by auto
  qed
qed

theorem synchronize_success_flag_counterexample:
  "synchronize sim missing_syncer stats0 tree_m = Some (False, stats0, tree_m) \<and>
   errors stats0 = 0"
  by code_simp

theorem synchronize_success_flag_witness:
  "\<exists>ok s' w'. synchronize sim mirror_syncer stats0 tree_m = Some (ok, s', w') \<and>
     (ok \<longleftrightarrow> errors s' = 0)"
  using synchronize_success_flag [of sim mirror_syncer stats0 tree_m] source_m_exists
  by simp

subsection \<open>Deletions\<close>


lemma execute_plan_no_delete:
  assumes "to_delete p = []" "execute_plan be sy p (s, w) = (s', w')"
  shows "deleted s' = deleted s"
proof -
  obtain s1 w1 where a: "create_dirs be sy (to_copy p) (s, w) = (s1, w1)" by (metis surj_pair)
  obtain s2 w2 where b: "copy_new be sy (to_copy p) (s1, w1) = (s2, w2)" by (metis surj_pair)
  obtain s3 w3 where c: "update_existing be sy (to_update p) (s2, w2) = (s3, w3)"
    by (metis surj_pair)
  from assms a b c have e: "s' = s3\<lparr>skipped := length (skipped_paths p)\<rparr>"
    unfolding execute_plan_def by simp
  from create_dirs_counts [OF a] copy_new_counts [OF b] update_existing_counts [OF c] e
  show ?thesis by simp
qed

lemma plan_deletes_not_mirror: "sync_mode sy \<noteq> MIRROR \<Longrightarrow> plan_deletes be sy src dst = []"
  by (simp add: plan_deletes_def)

lemma synchronize_no_delete:
  assumes "sync_mode sy \<noteq> MIRROR" "synchronize be sy s w = Some (ok, s', w')"
  shows "deleted s' = deleted s"
proof (cases "path_exists be sy w (source sy) (source_type sy)")
  case False
  with assms(2) show ?thesis by (simp add: synchronize_no_source)
next
  case True
  obtain made s1 w1 where c:
    "(if \<not> path_exists be sy w (destination sy) (dest_type sy) \<and> sync_mode sy \<noteq> MIRROR
      then create_directory be sy (destination sy) (dest_type sy) (s, w)
      else (True, s, w)) = (made, s1, w1)"
    by (metis prod_cases3)
  have d1: "deleted s1 = deleted s"
  proof (cases "\<not> path_exists be sy w (destination sy) (dest_type sy) \<and> sync_mode sy \<noteq> MIRROR")
    case True
    with c have "create_directory be sy (destination sy) (dest_type sy) (s, w) = (made, s1, w1)"
      by simp
    from create_directory_effect [OF this] show ?thesis by (cases made) simp_all
  next
    case False
    with c show ?thesis by auto
  qed
  show ?thesis
  proof (cases made)
    case False
    with True c assms(2) have "s' = s1" unfolding synchronize_def by simp
    with d1 show ?thesis by simp
  next
    case m: True
    obtain p s2 where b: "build_plan be sy w1 s1 = Some (p, s2)"
      using build_plan_total [of be sy w1 s1] by (elim exE)
    obtain s3 w3 where e: "execute_plan be sy p (s2, w1) = (s3, w3)" by (metis surj_pair)
    from True c m b e assms(2) have s': "s' = s3" unfolding synchronize_def by simp
    from build_plan_to_delete [OF b] assms(1) have "to_delete p = []"
      by (simp add: plan_deletes_not_mirror)
    from execute_plan_no_delete [OF this e] build_plan_counters [OF b] d1 s'
    show ?thesis by simp
  qed
qed

lemma plan_of_m: "build_plan sim mirror_syncer tree_m stats0 = Some (plan_m, stats0)"
  by code_simp

lemma old_txt_planned: "(''/dst/old.txt'', False) \<in> set (to_delete plan_m)"
  by code_simp

lemma plain_not_mirror: "sync_mode plain_syncer \<noteq> MIRROR"
  by code_simp

text \<open>
  Claim C2, as amended. The plan is always built, and it holds a deletion for a
  destination entry exactly when the mode is mirror, the entry's relative path is absent
  from the filtered source index, and that path itself passes the include and exclude
  filter. In the one-way and two-way modes the plan holds no deletion and a run leaves
  the \<open>deleted\<close> counter as it was. (As stated, the claim plans a deletion for every
  destination path absent from the filtered source index; a destination path that the
  filter rejects is kept.)
\<close>


theorem mirror_deletions:
  "\<exists>p s'. build_plan be sy w s = Some (p, s') \<and>
     (\<forall>dp isd. (dp, isd) \<in> set (to_delete p) \<longleftrightarrow>
        sync_mode sy = MIRROR \<and>
        (\<exists>rel_path dest_file. (rel_path, dest_file) \<in> set (scan_dest be sy w) \<and>
           rel_path \<notin> fst ` set (scan_source be sy w) \<and>
           should_include_file (fnmatch_fn be) sy rel_path \<and>
           dp = full_path dest_file \<and> isd = is_dir dest_file)) \<and>
     (sync_mode sy \<noteq> MIRROR \<longrightarrow> to_delete p = []) \<and>
     (\<forall>ok s'' w'. sync_mode sy \<noteq> MIRROR \<and> synchronize be sy s w = Some (ok, s'', w')
        \<longrightarrow> deleted s'' = deleted s)"
proof -
  obtain p s' where b: "build_plan be sy w s = Some (p, s')"
    using build_plan_total [of be sy w s] by (elim exE)
  note d = build_plan_to_delete [OF b]
  have 1: "\<forall>dp isd. (dp, isd) \<in> set (to_delete p) \<longleftrightarrow>
        sync_mode sy = MIRROR \<and>
        (\<exists>rel_path dest_file. (rel_path, dest_file) \<in> set (scan_dest be sy w) \<and>
           rel_path \<notin> fst ` set (scan_source be sy w) \<and>
           should_include_file (fnmatch_fn be) sy rel_path \<and>
           dp = full_path dest_file \<and> isd = is_dir dest_file)"
    unfolding d by (intro allI) (rule plan_deletes_mem)
  have 2: "sync_mode sy \<noteq> MIRROR \<longrightarrow> to_delete p = []"
    unfolding d by (simp add: plan_deletes_not_mirror)
  have 3: "\<forall>ok s'' w'. sync_mode sy \<noteq> MIRROR \<and> synchronize be sy s w = Some (ok, s'', w')
        \<longrightarrow> deleted s'' = deleted s"
  proof (intro allI impI)
    fix ok s'' w'
    assume h: "sync_mode sy \<noteq> MIRROR \<and> synchronize be sy s w = Some (ok, s'', w')"
    from h have h1: "sync_mode sy \<noteq> MIRROR" by (rule conjunct1)
    from h have h2: "synchronize be sy s w = Some (ok, s'', w')" by (rule conjunct2)
    show "deleted s'' = deleted s" by (rule synchronize_no_delete [OF h1 h2])
  qed
  from b 1 2 3 show ?thesis by (intro exI conjI)
qed

theorem mirror_deletions_witness:
  "(''/dst/old.txt'', False) \<in> set (to_delete plan_m) \<and>
   (\<exists>rel_path dest_file. (rel_path, dest_file) \<in> set (scan_dest sim mirror_syncer tree_m) \<and>
      rel_path \<notin> fst ` set (scan_source sim mirror_syncer tree_m) \<and>
      should_include_file (fnmatch_fn sim) mirror_syncer rel_path \<and>
      ''/dst/old.txt'' = full_path dest_file \<and> False = is_dir dest_file) \<and>
   sync_mode plain_syncer \<noteq> MIRROR \<and>
   (\<exists>p s'. build_plan sim plain_syncer tree_m stats0 = Some (p, s') \<and> to_delete p = [])"
proof -
  from mirror_deletions [of sim mirror_syncer tree_m stats0] obtain p s' where
    b: "build_plan sim mirror_syncer tree_m stats0 = Some (p, s')" and
    i: "\<forall>dp isd. (dp, isd) \<in> set (to_delete p) \<longleftrightarrow>
        sync_mode mirror_syncer = MIRROR \<and>
        (\<exists>rel_path dest_file. (rel_path, dest_file) \<in> set (scan_dest sim mirror_syncer tree_m) \<and>
           rel_path \<notin> fst ` set (scan_source sim mirror_syncer tree_m) \<and>
           should_include_file (fnmatch_fn sim) mirror_syncer rel_path \<and>
           dp = full_path dest_file \<and> isd = is_dir dest_file)"
    by (elim exE conjE)
  from b plan_of_m have p: "p = plan_m" by simp
  from i have "(''/dst/old.txt'', False) \<in> set (to_delete p) \<longleftrightarrow>
        sync_mode mirror_syncer = MIRROR \<and>
        (\<exists>rel_path dest_file. (rel_path, dest_file) \<in> set (scan_dest sim mirror_syncer tree_m) \<and>
           rel_path \<notin> fst ` set (scan_source sim mirror_syncer tree_m) \<and>
           should_include_file (fnmatch_fn sim) mirror_syncer rel_path \<and>
           ''/dst/old.txt'' = full_path dest_file \<and> False = is_dir dest_file)"
    by (elim allE)
  with old_txt_planned p have e:
    "\<exists>rel_path dest_file. (rel_path, dest_file) \<in> set (scan_dest sim mirror_syncer tree_m) \<and>
           rel_path \<notin> fst ` set (scan_source sim mirror_syncer tree_m) \<and>
           should_include_file (fnmatch_fn sim) mirror_syncer rel_path \<and>
           ''/dst/old.txt'' = full_path dest_file \<and> False = is_dir dest_file"
    by simp
  from mirror_deletions [of sim plain_syncer tree_m stats0] plain_not_mirror
  have f: "\<exists>p s'. build_plan sim plain_syncer tree_m stats0 = Some (p, s') \<and> to_delete p = []"
    by (elim exE conjE) auto
  from old_txt_planned e plain_not_mirror f show ?thesis by (intro conjI)
qed

theorem mirror_deletions_counterexample:
  "sync_mode mirror_syncer = MIRROR \<and>
   map_of (scan_dest sim mirror_syncer tree_m) ''old.tmp''
     = Some \<lparr>path = ''old.tmp'', full_path = ''/dst/old.tmp'', size_of = 1, mtime = 5,
              is_dir = False\<rparr> \<and>
   ''old.tmp'' \<notin> set (map fst (scan_source sim mirror_syncer tree_m)) \<and>
   build_plan sim mirror_syncer tree_m stats0 = Some (plan_m, stats0) \<and>
   (''/dst/old.tmp'', False) \<notin> set (to_delete plan_m)"
  by code_simp

subsection \<open>The conflicts counter\<close>
















subsection \<open>Scans\<close>








lemma remote_listing_empty: "fst (list_files be sy w directory REMOTE) = []"
  by (simp add: list_files_def list_remote_dir_def split: option.splits list.splits)









subsection \<open>Running twice\<close>

text \<open>
  Claim C9 fails on the code for a destination on an SFTP server. The first one-way
  run of \<open>remote_syncer\<close> on \<open>tree_r\<close> copies \<open>a.txt\<close> without an error and leaves the
  source as it was. The second run, on the storage left by the first, lists the
  destination as empty although the server holds \<open>a.txt\<close> (\<open>remote_listing_empty\<close>),
  plans \<open>a.txt\<close> as a copy again, and raises \<open>copied\<close> from 1 to 2.
\<close>

theorem second_run_copies_again:
  "synchronize sim remote_syncer stats0 tree_r = Some (True, stats_r1, tree_r1)
   \<and> errors stats_r1 = 0
   \<and> local_fs tree_r1 = local_fs tree_r
   \<and> listdir_attr_io sim tree_r1 DestSFTP ''/dst'' = Some [(''a.txt'', False, 5, 1000)]
   \<and> fst (list_files sim remote_syncer tree_r1 ''/dst'' REMOTE) = []
   \<and> map_option (to_copy \<circ> fst) (build_plan sim remote_syncer tree_r1 stats_r1)
       = Some [(''/src/a.txt'', ''/dst/a.txt'', False)]
   \<and> map_option (copied \<circ> fst \<circ> snd) (synchronize sim remote_syncer stats_r1 tree_r1) = Some 2"
  by code_simp

end
